theory Spec2Isabelle
  imports Complex_Main "HOL-Library.Word" "HOL-Library.Monad_Syntax"
begin

section \<open>The STT adapter of talkie: data model (src/tcl/stt/stt.h)\<close>

text \<open>
  Pointers are addresses, \<open>NULL\<close> is address 0. The two context structs live in typed
  heaps; a read through \<open>NULL\<close> or through an address that holds no object is undefined
  behaviour in C and is the value \<open>None\<close> of the model (\<open>deref\<close>). An owned
  \<open>char *\<close> field holds a string or is \<open>NULL\<close> (\<open>None\<close>). C \<open>int\<close>s are never computed
  with here, only compared and passed on, so they are \<open>int\<close>.
\<close>

type_synonym ptr = nat

abbreviation NULL :: ptr where
  "NULL \<equiv> 0"

type_synonym byte = "8 word"

abbreviation TCL_OK :: int where
  "TCL_OK \<equiv> 0"

abbreviation TCL_ERROR :: int where
  "TCL_ERROR \<equiv> 1"

text \<open>
  \<open>struct EngineAPI\<close>: seven function pointers, each \<open>NULL\<close> (\<open>None\<close>) or the code of
  the engine. The engine is external: a call is recorded in the trace with its arguments,
  and the table gives the value the engine returns for them. What the engine does to its
  own memory and to the interpreter is not part of the model, and it is taken not to
  write into the two context structs. The second argument of \<open>create_recognizer\<close> is
  the interpreter, of which the model has one. A call through a null entry is undefined
  behaviour, the value \<open>None\<close> of the functions below.
\<close>

record EngineAPI =
  model_free :: "(ptr \<Rightarrow> unit) option"
  recognizer_free :: "(ptr \<Rightarrow> unit) option"
  accept_waveform :: "(ptr \<Rightarrow> byte list \<Rightarrow> int \<Rightarrow> int) option"
  get_text :: "(ptr \<Rightarrow> string option) option"
  get_final :: "(ptr \<Rightarrow> string option) option"
  reset :: "(ptr \<Rightarrow> unit) option"
  create_recognizer :: "(ptr \<Rightarrow> int \<Rightarrow> int) option"

text \<open>\<open>struct ModelCtx\<close>.\<close>

record ModelCtx =
  model :: ptr
  model_path :: "string option"
  engine_type :: "string option"
  cmdname :: ptr
  engine_funcs :: ptr

text \<open>
  \<open>struct RecognizerCtx\<close>. Its fields \<open>model\<close>, \<open>interp\<close>, \<open>cmdname\<close> and
  \<open>sample_rate\<close> carry the prefix \<open>r_\<close>, since a record field is a constant of the
  theory. No function of the file reads \<open>sample_rate\<close>, a \<open>float\<close>.
\<close>

record RecognizerCtx =
  recognizer :: ptr
  r_model :: ptr
  model_ctx :: ptr
  r_interp :: ptr
  r_cmdname :: ptr
  r_sample_rate :: real
  closed :: int

subsection \<open>The Tcl side\<close>

text \<open>
  An argument word \<open>Tcl_Obj *\<close> is known through what the Tcl accessors return for it:
  \<open>Tcl_GetString\<close> (a C string, so without NUL byte: \<open>strcmp\<close> is equality),
  \<open>Tcl_GetByteArrayFromObj\<close> (the data pointer, \<open>None\<close> when \<open>NULL\<close>, and the length it
  stores) and \<open>Tcl_GetIntFromObj\<close> (the integer, or the message Tcl leaves in the
  interpreter when the word is no integer).
\<close>

record Tcl_Obj =
  string_rep :: string
  byte_array :: "byte list option"
  byte_length :: int
  int_rep :: "string + int"

definition Tcl_GetString :: "Tcl_Obj \<Rightarrow> string" where
  "Tcl_GetString obj = string_rep obj"

definition Tcl_GetByteArrayFromObj :: "Tcl_Obj \<Rightarrow> byte list option \<times> int" where
  "Tcl_GetByteArrayFromObj obj = (byte_array obj, byte_length obj)"

text \<open>The objects the handlers build as results.\<close>

datatype Tcl_Value = StringObj string | BooleanObj bool

definition Tcl_NewStringObj :: "string \<Rightarrow> Tcl_Value" where
  "Tcl_NewStringObj s = StringObj s"

definition Tcl_NewBooleanObj :: "int \<Rightarrow> Tcl_Value" where
  "Tcl_NewBooleanObj i = BooleanObj (i \<noteq> 0)"

fun string_of_value :: "Tcl_Value \<Rightarrow> string" where
  "string_of_value (StringObj s) = s"
| "string_of_value (BooleanObj b) = (if b then ''1'' else ''0'')"

text \<open>
  A command of the interpreter, as far as \<open>Tcl_DeleteCommand\<close> needs it: the delete
  procedure registered with it (\<open>None\<close>: none, or one of another extension) and the
  client data that procedure receives.
\<close>

datatype delete_proc = Proc_model_delete | Proc_recognizer_delete

record Command =
  deleteProc :: "delete_proc option"
  deleteData :: ptr

record Tcl_Interp =
  result :: Tcl_Value
  commands :: "string \<rightharpoonup> Command"

subsection \<open>The world: heaps, interpreter, trace of external calls\<close>

datatype event =
    Call_model_free ptr
  | Call_recognizer_free ptr
  | Call_accept_waveform ptr "byte list" int
  | Call_get_text ptr
  | Call_get_final ptr
  | Call_reset ptr
  | Call_create_recognizer ptr int
  | Ckfree_string string
  | Ckfree ptr
  | DecrRefCount ptr

fun is_engine_call :: "event \<Rightarrow> bool" where
  "is_engine_call (Ckfree_string _) = False"
| "is_engine_call (Ckfree _) = False"
| "is_engine_call (DecrRefCount _) = False"
| "is_engine_call _ = True"

type_synonym memory = "(ptr \<rightharpoonup> ModelCtx) \<times> (ptr \<rightharpoonup> RecognizerCtx)"

text \<open>
  Each entry of the trace is an external call (an engine function, \<open>ckfree\<close>,
  \<open>Tcl_DecrRefCount\<close>) together with the memory as it is when the call is made.
\<close>

record world =
  models :: "ptr \<rightharpoonup> ModelCtx"
  recognizers :: "ptr \<rightharpoonup> RecognizerCtx"
  interp :: Tcl_Interp
  trace :: "(event \<times> memory) list"

definition deref :: "(ptr \<rightharpoonup> 'a) \<Rightarrow> ptr \<Rightarrow> 'a option" where
  "deref h p = (if p = NULL then None else h p)"

definition emit :: "event \<Rightarrow> world \<Rightarrow> world" where
  "emit e w = w\<lparr>trace := trace w @ [(e, (models w, recognizers w))]\<rparr>"

definition calls :: "world \<Rightarrow> event list" where
  "calls w = map fst (trace w)"

definition store_model :: "ptr \<Rightarrow> (ModelCtx \<Rightarrow> ModelCtx) \<Rightarrow> world \<Rightarrow> world" where
  "store_model p f w = w\<lparr>models := (models w)(p := map_option f (models w p))\<rparr>"

definition store_recognizer :: "ptr \<Rightarrow> (RecognizerCtx \<Rightarrow> RecognizerCtx) \<Rightarrow> world \<Rightarrow> world" where
  "store_recognizer p f w = w\<lparr>recognizers := (recognizers w)(p := map_option f (recognizers w p))\<rparr>"

definition Tcl_GetStringResult :: "world \<Rightarrow> string" where
  "Tcl_GetStringResult w = string_of_value (result (interp w))"

definition Tcl_SetObjResult :: "Tcl_Value \<Rightarrow> world \<Rightarrow> world" where
  "Tcl_SetObjResult v w = w\<lparr>interp := (interp w)\<lparr>result := v\<rparr>\<rparr>"

text \<open>\<open>Tcl_AppendResult\<close> appends its strings to the current result of the interpreter.\<close>

definition Tcl_AppendResult :: "string list \<Rightarrow> world \<Rightarrow> world" where
  "Tcl_AppendResult strs w =
     Tcl_SetObjResult (StringObj (Tcl_GetStringResult w @ concat strs)) w"

text \<open>
  \<open>Tcl_WrongNumArgs (interp, n, objv, message)\<close> replaces the result by Tcl's usage
  message: the first \<open>n\<close> words of the command, then \<open>message\<close>.
\<close>

definition wrong_num_args :: "nat \<Rightarrow> Tcl_Obj list \<Rightarrow> string \<Rightarrow> string" where
  "wrong_num_args n objv message =
     ''wrong # args: should be \"'' @
     concat (map (\<lambda>obj. Tcl_GetString obj @ '' '') (take n objv)) @ message @ ''\"''"

definition Tcl_WrongNumArgs :: "nat \<Rightarrow> Tcl_Obj list \<Rightarrow> string \<Rightarrow> world \<Rightarrow> world" where
  "Tcl_WrongNumArgs n objv message w =
     Tcl_SetObjResult (StringObj (wrong_num_args n objv message)) w"

section \<open>Cleanup functions (src/tcl/stt/stt.c, lines 10 to 54)\<close>

definition model_delete :: "(ptr \<rightharpoonup> EngineAPI) \<Rightarrow> ptr \<Rightarrow> world \<Rightarrow> world option" where
  "model_delete E cd w =
     (if cd = NULL then Some w
      else do {
        ctx \<leftarrow> deref (models w) cd;
        w1 \<leftarrow> (if model ctx \<noteq> NULL \<and> engine_funcs ctx \<noteq> NULL then do {
                 api \<leftarrow> deref E (engine_funcs ctx);
                 _ \<leftarrow> model_free api;
                 Some (store_model cd (\<lambda>c. c\<lparr>model := NULL\<rparr>)
                         (emit (Call_model_free (model ctx)) w))
               } else Some w);
        let w2 = (case model_path ctx of
                    Some s \<Rightarrow> store_model cd (\<lambda>c. c\<lparr>model_path := None\<rparr>)
                                (emit (Ckfree_string s) w1)
                  | None \<Rightarrow> w1);
        let w3 = (case engine_type ctx of
                    Some s \<Rightarrow> store_model cd (\<lambda>c. c\<lparr>engine_type := None\<rparr>)
                                (emit (Ckfree_string s) w2)
                  | None \<Rightarrow> w2);
        let w4 = (if cmdname ctx \<noteq> NULL
                  then store_model cd (\<lambda>c. c\<lparr>cmdname := NULL\<rparr>)
                         (emit (DecrRefCount (cmdname ctx)) w3)
                  else w3);
        let w5 = emit (Ckfree cd) w4;
        Some (w5\<lparr>models := (models w5)(cd := None)\<rparr>)
      })"

definition recognizer_delete :: "(ptr \<rightharpoonup> EngineAPI) \<Rightarrow> ptr \<Rightarrow> world \<Rightarrow> world option" where
  "recognizer_delete E cd w =
     (if cd = NULL then Some w
      else do {
        ctx \<leftarrow> deref (recognizers w) cd;
        let w0 = store_recognizer cd (\<lambda>c. c\<lparr>closed := 1\<rparr>) w;
        w1 \<leftarrow> (if recognizer ctx \<noteq> NULL \<and> model_ctx ctx \<noteq> NULL then do {
                 mctx \<leftarrow> deref (models w0) (model_ctx ctx);
                 if engine_funcs mctx \<noteq> NULL then do {
                   api \<leftarrow> deref E (engine_funcs mctx);
                   _ \<leftarrow> recognizer_free api;
                   Some (store_recognizer cd (\<lambda>c. c\<lparr>recognizer := NULL\<rparr>)
                           (emit (Call_recognizer_free (recognizer ctx)) w0))
                 } else Some w0
               } else Some w0);
        let w2 = store_recognizer cd (\<lambda>c. c\<lparr>r_model := NULL\<rparr>) w1;
        let w3 = (if r_cmdname ctx \<noteq> NULL
                  then store_recognizer cd (\<lambda>c. c\<lparr>r_cmdname := NULL\<rparr>)
                         (emit (DecrRefCount (r_cmdname ctx)) w2)
                  else w2);
        let w4 = emit (Ckfree cd) w3;
        Some (w4\<lparr>recognizers := (recognizers w4)(cd := None)\<rparr>)
      })"

text \<open>
  \<open>Tcl_DeleteCommand\<close>: a name that is no command is left alone (Tcl returns -1, which
  the handlers ignore); otherwise the command is removed and its delete procedure runs
  on its client data.
\<close>

definition Tcl_DeleteCommand :: "(ptr \<rightharpoonup> EngineAPI) \<Rightarrow> string \<Rightarrow> world \<Rightarrow> world option" where
  "Tcl_DeleteCommand E name w =
     (case commands (interp w) name of
        None \<Rightarrow> Some w
      | Some c \<Rightarrow>
          let w1 = w\<lparr>interp := (interp w)\<lparr>commands := (commands (interp w))(name := None)\<rparr>\<rparr>
          in (case deleteProc c of
                None \<Rightarrow> Some w1
              | Some Proc_model_delete \<Rightarrow> model_delete E (deleteData c) w1
              | Some Proc_recognizer_delete \<Rightarrow> recognizer_delete E (deleteData c) w1))"

section \<open>Command handlers (src/tcl/stt/stt.c, lines 60 to 168)\<close>

text \<open>
  \<open>objv\<close> is the list of the words of the command and \<open>objc\<close> its length. With
  \<open>objc = 0\<close> the first usage message would read \<open>objv[0]\<close> outside the array.
\<close>

definition RecognizerObjCmd ::
  "(ptr \<rightharpoonup> EngineAPI) \<Rightarrow> ptr \<Rightarrow> Tcl_Obj list \<Rightarrow> world \<Rightarrow> (int \<times> world) option" where
  "RecognizerObjCmd E cd objv w =
     (let objc = int (length objv) in
      if cd = NULL then Some (TCL_ERROR, Tcl_AppendResult [''recognizer closed''] w)
      else do {
        ctx \<leftarrow> deref (recognizers w) cd;
        if closed ctx \<noteq> 0 then Some (TCL_ERROR, Tcl_AppendResult [''recognizer closed''] w)
        else if objc < 2 then
          (if objv = [] then None
           else Some (TCL_ERROR, Tcl_WrongNumArgs 1 objv ''subcommand ?args?'' w))
        else do {
          let sub = Tcl_GetString (objv ! 1);
          mctx \<leftarrow> deref (models w) (model_ctx ctx);
          let api = engine_funcs mctx;
          if sub = ''accept-waveform'' then
            (if objc \<noteq> 3 then Some (TCL_ERROR, Tcl_WrongNumArgs 2 objv ''audio_data'' w)
             else
               let (data, length) = Tcl_GetByteArrayFromObj (objv ! 2) in
               (case data of
                  None \<Rightarrow> Some (TCL_ERROR, Tcl_AppendResult [''invalid audio data''] w)
                | Some bytes \<Rightarrow>
                    if length \<le> 0
                    then Some (TCL_ERROR, Tcl_AppendResult [''invalid audio data''] w)
                    else do {
                      tbl \<leftarrow> deref E api;
                      f \<leftarrow> accept_waveform tbl;
                      let result = f (recognizer ctx) bytes length;
                      Some (TCL_OK,
                        Tcl_SetObjResult (Tcl_NewBooleanObj result)
                          (emit (Call_accept_waveform (recognizer ctx) bytes length) w))
                    }))
          else if sub = ''text'' then do {
            tbl \<leftarrow> deref E api;
            f \<leftarrow> get_text tbl;
            let result = f cd;
            Some (TCL_OK,
              Tcl_SetObjResult
                (Tcl_NewStringObj (case result of Some s \<Rightarrow> s | None \<Rightarrow> []))
                (emit (Call_get_text cd) w))
          }
          else if sub = ''final-result'' then do {
            tbl \<leftarrow> deref E api;
            f \<leftarrow> get_final tbl;
            let result = f cd;
            Some (TCL_OK,
              Tcl_SetObjResult
                (Tcl_NewStringObj (case result of Some s \<Rightarrow> s | None \<Rightarrow> []))
                (emit (Call_get_final cd) w))
          }
          else if sub = ''reset'' then do {
            tbl \<leftarrow> deref E api;
            _ \<leftarrow> reset tbl;
            Some (TCL_OK, Tcl_SetObjResult (Tcl_NewStringObj ''ok'') (emit (Call_reset cd) w))
          }
          else if sub = ''close'' then do {
            w1 \<leftarrow> Tcl_DeleteCommand E (Tcl_GetString (objv ! 0)) w;
            Some (TCL_OK, Tcl_SetObjResult (Tcl_NewStringObj ''ok'') w1)
          }
          else Some (TCL_ERROR, Tcl_AppendResult [''unknown subcommand \"'', sub, ''\"''] w)
        }
      })"

text \<open>
  A word that \<open>Tcl_GetIntFromObj\<close> rejects makes the model handler return \<open>TCL_ERROR\<close>
  with the message Tcl has left. The handler itself never reads through \<open>ctx\<close> before
  the \<open>create_recognizer\<close> branch.
\<close>

definition ModelObjCmd ::
  "(ptr \<rightharpoonup> EngineAPI) \<Rightarrow> ptr \<Rightarrow> Tcl_Obj list \<Rightarrow> world \<Rightarrow> (int \<times> world) option" where
  "ModelObjCmd E cd objv w =
     (let objc = int (length objv) in
      if cd = NULL then Some (TCL_ERROR, Tcl_AppendResult [''model deleted''] w)
      else if objc < 2 then
        (if objv = [] then None
         else Some (TCL_ERROR, Tcl_WrongNumArgs 1 objv ''subcommand ?args?'' w))
      else
        let sub = Tcl_GetString (objv ! 1) in
        if sub = ''create_recognizer'' then
          (if objc \<noteq> 4 \<or> Tcl_GetString (objv ! 2) \<noteq> ''-rate''
           then Some (TCL_ERROR, Tcl_WrongNumArgs 2 objv ''-rate sample_rate'' w)
           else
             (case int_rep (objv ! 3) of
                Inl msg \<Rightarrow> Some (TCL_ERROR, Tcl_SetObjResult (StringObj msg) w)
              | Inr sample_rate \<Rightarrow> do {
                  ctx \<leftarrow> deref (models w) cd;
                  let api = engine_funcs ctx;
                  let not_implemented =
                    Some (TCL_ERROR,
                      Tcl_AppendResult
                        [''create_recognizer not implemented for engine: '',
                         (case engine_type ctx of Some s \<Rightarrow> s | None \<Rightarrow> ''unknown'')] w);
                  if api \<noteq> NULL then do {
                    tbl \<leftarrow> deref E api;
                    (case create_recognizer tbl of
                       Some f \<Rightarrow>
                         Some (f cd sample_rate,
                               emit (Call_create_recognizer cd sample_rate) w)
                     | None \<Rightarrow> not_implemented)
                  } else not_implemented
                }))
        else if sub = ''close'' then do {
          w1 \<leftarrow> Tcl_DeleteCommand E (Tcl_GetString (objv ! 0)) w;
          Some (TCL_OK, Tcl_SetObjResult (Tcl_NewStringObj ''ok'') w1)
        }
        else Some (TCL_ERROR, Tcl_AppendResult [''unknown subcommand \"'', sub, ''\"''] w))"

section \<open>Concrete inputs\<close>

text \<open>
  A word given as a string, a word that is also an integer, and a byte array; two engine
  tables, of which the second has no \<open>create_recognizer\<close>; and a world with the models
  at 1 and 2, the recognizers at 3 (open) and 4 (closed flag set), and at 5 and 6 a model
  and a recognizer context of which only some fields are initialised.
\<close>

definition str_obj :: "string \<Rightarrow> Tcl_Obj" where
  "str_obj s =
     \<lparr>string_rep = s, byte_array = Some (map (\<lambda>c. of_nat (of_char c)) s),
      byte_length = int (length s),
      int_rep = Inl (''expected integer but got \"'' @ s @ ''\"'')\<rparr>"

definition int_obj :: "string \<Rightarrow> int \<Rightarrow> Tcl_Obj" where
  "int_obj s n = (str_obj s)\<lparr>int_rep := Inr n\<rparr>"

definition bytes_obj :: "byte list \<Rightarrow> Tcl_Obj" where
  "bytes_obj bs =
     \<lparr>string_rep = map (\<lambda>b. char_of (unat b)) bs, byte_array = Some bs,
      byte_length = int (length bs), int_rep = Inl ''expected integer''\<rparr>"

definition vosk_api :: EngineAPI where
  "vosk_api =
     \<lparr>model_free = Some (\<lambda>_. ()), recognizer_free = Some (\<lambda>_. ()),
      accept_waveform = Some (\<lambda>h bs n. if n > 4 then 1 else 0),
      get_text = Some (\<lambda>_. None), get_final = Some (\<lambda>_. Some ''hello world''),
      reset = Some (\<lambda>_. ()), create_recognizer = Some (\<lambda>_ _. TCL_OK)\<rparr>"

definition sherpa_api :: EngineAPI where
  "sherpa_api = vosk_api\<lparr>create_recognizer := None\<rparr>"

definition E0 :: "ptr \<rightharpoonup> EngineAPI" where
  "E0 = [10 \<mapsto> vosk_api, 11 \<mapsto> sherpa_api]"

definition m1 :: ModelCtx where
  "m1 = \<lparr>model = 100, model_path = Some ''/models/vosk-en'', engine_type = Some ''vosk'',
          cmdname = 200, engine_funcs = 10\<rparr>"

definition r1 :: RecognizerCtx where
  "r1 = \<lparr>recognizer = 101, r_model = 100, model_ctx = 1, r_interp = 300, r_cmdname = 201,
          r_sample_rate = 16000, closed = 0\<rparr>"

definition m5 :: ModelCtx where
  "m5 = \<lparr>model = NULL, model_path = None, engine_type = Some ''vosk'', cmdname = NULL,
          engine_funcs = NULL\<rparr>"

definition r6 :: RecognizerCtx where
  "r6 = \<lparr>recognizer = NULL, r_model = NULL, model_ctx = NULL, r_interp = 300,
          r_cmdname = NULL, r_sample_rate = 0, closed = 0\<rparr>"

definition w0 :: world where
  "w0 =
     \<lparr>models = [1 \<mapsto> m1, 2 \<mapsto> m1\<lparr>engine_type := Some ''sherpa'', engine_funcs := 11\<rparr>,
                5 \<mapsto> m5],
      recognizers = [3 \<mapsto> r1, 4 \<mapsto> r1\<lparr>closed := 1\<rparr>, 6 \<mapsto> r6],
      interp =
        \<lparr>result = StringObj [],
         commands =
           [''m1'' \<mapsto> \<lparr>deleteProc = Some Proc_model_delete, deleteData = 1\<rparr>,
            ''r1'' \<mapsto> \<lparr>deleteProc = Some Proc_recognizer_delete, deleteData = 3\<rparr>]\<rparr>,
      trace = []\<rparr>"

lemmas example_defs =
  str_obj_def int_obj_def bytes_obj_def vosk_api_def sherpa_api_def E0_def m1_def r1_def
  m5_def r6_def w0_def

section \<open>Auxiliary facts\<close>

text \<open>What each Tcl call and each store leaves unchanged.\<close>

lemma Tcl_SetObjResult_simps [simp]:
  "trace (Tcl_SetObjResult v w) = trace w"
  "models (Tcl_SetObjResult v w) = models w"
  "recognizers (Tcl_SetObjResult v w) = recognizers w"
  "result (interp (Tcl_SetObjResult v w)) = v"
  "commands (interp (Tcl_SetObjResult v w)) = commands (interp w)"
  by (simp_all add: Tcl_SetObjResult_def)

lemma Tcl_AppendResult_simps [simp]:
  "trace (Tcl_AppendResult ss w) = trace w"
  "models (Tcl_AppendResult ss w) = models w"
  "recognizers (Tcl_AppendResult ss w) = recognizers w"
  "result (interp (Tcl_AppendResult ss w)) = StringObj (Tcl_GetStringResult w @ concat ss)"
  "commands (interp (Tcl_AppendResult ss w)) = commands (interp w)"
  by (simp_all add: Tcl_AppendResult_def)

lemma Tcl_WrongNumArgs_simps [simp]:
  "trace (Tcl_WrongNumArgs n objv m w) = trace w"
  "models (Tcl_WrongNumArgs n objv m w) = models w"
  "recognizers (Tcl_WrongNumArgs n objv m w) = recognizers w"
  "result (interp (Tcl_WrongNumArgs n objv m w)) = StringObj (wrong_num_args n objv m)"
  "commands (interp (Tcl_WrongNumArgs n objv m w)) = commands (interp w)"
  by (simp_all add: Tcl_WrongNumArgs_def)

lemma emit_simps [simp]:
  "trace (emit e w) = trace w @ [(e, (models w, recognizers w))]"
  "models (emit e w) = models w"
  "recognizers (emit e w) = recognizers w"
  "interp (emit e w) = interp w"
  by (simp_all add: emit_def)

lemma calls_emit [simp]: "calls (emit e w) = calls w @ [e]"
  by (simp add: calls_def)

lemma calls_Tcl [simp]:
  "calls (Tcl_SetObjResult v w) = calls w"
  "calls (Tcl_AppendResult ss w) = calls w"
  "calls (Tcl_WrongNumArgs n objv m w) = calls w"
  by (simp_all add: calls_def)

lemma Tcl_GetStringResult_cong [simp]:
  "Tcl_GetStringResult (emit e w) = Tcl_GetStringResult w"
  by (simp add: Tcl_GetStringResult_def)

lemma store_model_simps [simp]:
  "trace (store_model p f w) = trace w"
  "calls (store_model p f w) = calls w"
  "recognizers (store_model p f w) = recognizers w"
  "interp (store_model p f w) = interp w"
  "models (store_model p f w) = (models w)(p := map_option f (models w p))"
  by (simp_all add: store_model_def calls_def)

lemma store_recognizer_simps [simp]:
  "trace (store_recognizer p f w) = trace w"
  "calls (store_recognizer p f w) = calls w"
  "models (store_recognizer p f w) = models w"
  "interp (store_recognizer p f w) = interp w"
  "recognizers (store_recognizer p f w) = (recognizers w)(p := map_option f (recognizers w p))"
  by (simp_all add: store_recognizer_def calls_def)

lemma calls_world_update [simp]:
  "calls (w\<lparr>models := ms\<rparr>) = calls w"
  "calls (w\<lparr>recognizers := rs\<rparr>) = calls w"
  "calls (w\<lparr>interp := i\<rparr>) = calls w"
  by (simp_all add: calls_def)

text \<open>
  The recognizer handler behind its guards: an open context whose parent model context
  is live, and a command of at least two words.
\<close>

lemma RecognizerObjCmd_open:
  assumes "cd \<noteq> NULL" "recognizers w cd = Some ctx" "closed ctx = 0"
      and "2 \<le> length objv"
      and "model_ctx ctx \<noteq> NULL" "models w (model_ctx ctx) = Some mctx"
  shows "RecognizerObjCmd E cd objv w =
     (let sub = Tcl_GetString (objv ! 1); api = engine_funcs mctx in
      if sub = ''accept-waveform'' then
        (if length objv \<noteq> 3 then Some (TCL_ERROR, Tcl_WrongNumArgs 2 objv ''audio_data'' w)
         else if byte_array (objv ! 2) = None \<or> byte_length (objv ! 2) \<le> 0
           then Some (TCL_ERROR, Tcl_AppendResult [''invalid audio data''] w)
           else do {
             tbl \<leftarrow> deref E api;
             f \<leftarrow> accept_waveform tbl;
             Some (TCL_OK,
               Tcl_SetObjResult
                 (Tcl_NewBooleanObj
                    (f (recognizer ctx) (the (byte_array (objv ! 2))) (byte_length (objv ! 2))))
                 (emit (Call_accept_waveform (recognizer ctx) (the (byte_array (objv ! 2)))
                          (byte_length (objv ! 2))) w))
           })
      else if sub = ''text'' then do {
        tbl \<leftarrow> deref E api;
        f \<leftarrow> get_text tbl;
        Some (TCL_OK,
          Tcl_SetObjResult (Tcl_NewStringObj (case f cd of Some s \<Rightarrow> s | None \<Rightarrow> []))
            (emit (Call_get_text cd) w))
      }
      else if sub = ''final-result'' then do {
        tbl \<leftarrow> deref E api;
        f \<leftarrow> get_final tbl;
        Some (TCL_OK,
          Tcl_SetObjResult (Tcl_NewStringObj (case f cd of Some s \<Rightarrow> s | None \<Rightarrow> []))
            (emit (Call_get_final cd) w))
      }
      else if sub = ''reset'' then do {
        tbl \<leftarrow> deref E api;
        _ \<leftarrow> reset tbl;
        Some (TCL_OK, Tcl_SetObjResult (Tcl_NewStringObj ''ok'') (emit (Call_reset cd) w))
      }
      else if sub = ''close'' then do {
        w1 \<leftarrow> Tcl_DeleteCommand E (Tcl_GetString (objv ! 0)) w;
        Some (TCL_OK, Tcl_SetObjResult (Tcl_NewStringObj ''ok'') w1)
      }
      else Some (TCL_ERROR, Tcl_AppendResult [''unknown subcommand \"'', sub, ''\"''] w))"
  using assms
  by (auto simp: RecognizerObjCmd_def deref_def Let_def Tcl_GetByteArrayFromObj_def
           split: option.splits)

text \<open>
  No destructor and no handler writes to a recognizer context that is still allocated
  afterwards: each context is either freed or unchanged.
\<close>

lemma model_delete_recognizers:
  "model_delete E cd w = Some w' \<Longrightarrow> recognizers w' = recognizers w"
  by (auto simp: model_delete_def deref_def Let_def split: if_splits option.splits bind_splits)

lemma recognizer_delete_recognizers:
  "recognizer_delete E cd w = Some w' \<Longrightarrow>
     recognizers w' = (if cd = NULL then recognizers w else (recognizers w)(cd := None))"
  by (auto simp: recognizer_delete_def deref_def Let_def split: if_splits option.splits bind_splits)

lemma Tcl_DeleteCommand_recognizers:
  "Tcl_DeleteCommand E name w = Some w' \<Longrightarrow>
     recognizers w' p = None \<or> recognizers w' p = recognizers w p"
  by (auto simp: Tcl_DeleteCommand_def Let_def
           dest!: model_delete_recognizers recognizer_delete_recognizers
           split: option.splits delete_proc.splits if_splits)

lemma RecognizerObjCmd_recognizers:
  "RecognizerObjCmd E cd objv w = Some (rc, w') \<Longrightarrow>
     recognizers w' p = None \<or> recognizers w' p = recognizers w p"
  by (auto simp: RecognizerObjCmd_def Let_def Tcl_GetByteArrayFromObj_def
           dest: Tcl_DeleteCommand_recognizers [where p = p]
           split: if_splits option.splits bind_splits prod.splits)

lemma ModelObjCmd_recognizers:
  "ModelObjCmd E cd objv w = Some (rc, w') \<Longrightarrow>
     recognizers w' p = None \<or> recognizers w' p = recognizers w p"
  by (auto simp: ModelObjCmd_def Let_def
           dest: Tcl_DeleteCommand_recognizers [where p = p]
           split: if_splits option.splits bind_splits sum.splits)

text \<open>
  Every external call that the recognizer destructor makes sees the closed flag of its
  context already set.
\<close>

lemma recognizer_delete_closed_first:
  assumes "recognizer_delete E cd w = Some w'" "cd \<noteq> NULL"
  shows "\<exists>evs. trace w' = trace w @ evs \<and> evs \<noteq> []
           \<and> (\<forall>(e, m) \<in> set evs. \<exists>r. snd m cd = Some r \<and> closed r = 1)"
  using assms
  by (auto simp: recognizer_delete_def deref_def Let_def split: if_splits option.splits bind_splits)

section \<open>The claims\<close>

subsection \<open>C1: the guard of the recognizer handler\<close>

text \<open>
  Claim C1. When the recognizer handler is invoked with a null context pointer, or with a
  context whose closed flag is set, it returns \<open>TCL_ERROR\<close>, appends the message
  \<open>recognizer closed\<close> to the result, and makes no external call (the trace is unchanged)
  and no change to memory, whatever the words of the command and however many there are.
\<close>

theorem recognizer_closed_guard:
  assumes "cd = NULL \<or> (\<exists>ctx. recognizers w cd = Some ctx \<and> closed ctx \<noteq> 0)"
  shows "\<exists>w'. RecognizerObjCmd E cd objv w = Some (TCL_ERROR, w')
           \<and> result (interp w') = StringObj (Tcl_GetStringResult w @ ''recognizer closed'')
           \<and> trace w' = trace w
           \<and> models w' = models w \<and> recognizers w' = recognizers w"
  using assms by (auto simp: RecognizerObjCmd_def deref_def Let_def)

theorem recognizer_closed_guard_witness:
  "recognizers w0 4 = Some (r1\<lparr>closed := 1\<rparr>)
   \<and> (\<exists>w'. RecognizerObjCmd E0 4 [str_obj ''r1'', str_obj ''text''] w0 = Some (TCL_ERROR, w')
          \<and> result (interp w') = StringObj ''recognizer closed''
          \<and> trace w' = [] \<and> recognizers w' = recognizers w0)"
proof -
  have h: "4 = NULL \<or> (\<exists>ctx. recognizers w0 4 = Some ctx \<and> closed ctx \<noteq> 0)"
    by (simp add: w0_def r1_def)
  have e: "Tcl_GetStringResult w0 = []" "trace w0 = []"
    "recognizers w0 4 = Some (r1\<lparr>closed := 1\<rparr>)"
    by (simp_all add: w0_def Tcl_GetStringResult_def)
  from recognizer_closed_guard [where cd = 4 and w = w0 and E = E0
         and objv = "[str_obj ''r1'', str_obj ''text'']", OF h]
  show ?thesis
    using e by auto
qed

subsection \<open>C2: \<open>create_recognizer -rate N\<close>\<close>

text \<open>
  Claim C2. For a live model context and the command \<open>create_recognizer -rate N\<close> with an
  integer \<open>N\<close>: when the engine table is present and its \<open>create_recognizer\<close> entry is
  not null, the handler calls that entry exactly once, with the model context and \<open>N\<close>,
  and returns what it returns; when the table pointer or the entry is null, the handler
  returns \<open>TCL_ERROR\<close>, makes no external call, and appends
  \<open>create_recognizer not implemented for engine: \<close> followed by the engine type tag of
  the model (\<open>unknown\<close> when the context has no tag).
\<close>

theorem create_recognizer_dispatch:
  assumes "cd \<noteq> NULL" "models w cd = Some ctx"
      and "objv = [cmd, sub, flag, rate]"
      and "Tcl_GetString sub = ''create_recognizer''" "Tcl_GetString flag = ''-rate''"
      and "int_rep rate = Inr N"
      and "entry = (if engine_funcs ctx = NULL then None
                    else Option.bind (E (engine_funcs ctx)) create_recognizer)"
      and "engine_funcs ctx = NULL \<or> E (engine_funcs ctx) \<noteq> None"
  shows "\<exists>w'. ModelObjCmd E cd objv w
               = Some (case entry of Some f \<Rightarrow> f cd N | None \<Rightarrow> TCL_ERROR, w')
           \<and> calls w'
               = calls w @ (case entry of Some f \<Rightarrow> [Call_create_recognizer cd N] | None \<Rightarrow> [])
           \<and> result (interp w')
               = (case entry of
                    Some f \<Rightarrow> result (interp w)
                  | None \<Rightarrow>
                      StringObj (Tcl_GetStringResult w
                        @ ''create_recognizer not implemented for engine: ''
                        @ (case engine_type ctx of Some tag \<Rightarrow> tag | None \<Rightarrow> ''unknown'')))"
  using assms
  by (auto simp: ModelObjCmd_def deref_def Let_def split: option.splits)

theorem create_recognizer_dispatch_witness:
  "(\<exists>w'. ModelObjCmd E0 1
            [str_obj ''m1'', str_obj ''create_recognizer'', str_obj ''-rate'',
             int_obj ''16000'' 16000] w0 = Some (TCL_OK, w')
        \<and> calls w' = [Call_create_recognizer 1 16000])
   \<and> (\<exists>w'. ModelObjCmd E0 2
            [str_obj ''m2'', str_obj ''create_recognizer'', str_obj ''-rate'',
             int_obj ''16000'' 16000] w0 = Some (TCL_ERROR, w')
        \<and> calls w' = []
        \<and> result (interp w')
            = StringObj ''create_recognizer not implemented for engine: sherpa'')"
proof -
  let ?m2 = "m1\<lparr>engine_type := Some ''sherpa'', engine_funcs := 11\<rparr>"
  have h: "(1::ptr) \<noteq> NULL" "models w0 1 = Some m1" "(2::ptr) \<noteq> NULL" "models w0 2 = Some ?m2"
    "Tcl_GetString (str_obj ''create_recognizer'') = ''create_recognizer''"
    "Tcl_GetString (str_obj ''-rate'') = ''-rate''"
    "int_rep (int_obj ''16000'' 16000) = Inr 16000"
    "engine_funcs m1 = NULL \<or> E0 (engine_funcs m1) \<noteq> None"
    "engine_funcs ?m2 = NULL \<or> E0 (engine_funcs ?m2) \<noteq> None"
    by (simp_all add: w0_def m1_def E0_def Tcl_GetString_def str_obj_def int_obj_def)
  have e: "calls w0 = []" "Tcl_GetStringResult w0 = []"
    "(if engine_funcs m1 = NULL then None
      else Option.bind (E0 (engine_funcs m1)) create_recognizer) = Some (\<lambda>_ _. TCL_OK)"
    "(if engine_funcs ?m2 = NULL then None
      else Option.bind (E0 (engine_funcs ?m2)) create_recognizer) = None"
    "engine_type ?m2 = Some ''sherpa''"
    by (simp_all add: calls_def w0_def Tcl_GetStringResult_def m1_def E0_def vosk_api_def
                      sherpa_api_def)
  from create_recognizer_dispatch [where E = E0 and cmd = "str_obj ''m1''"
         and entry = "Some (\<lambda>_ _. TCL_OK)", OF h(1,2) refl h(5,6,7) e(3) [symmetric] h(8)]
       create_recognizer_dispatch [where E = E0 and cmd = "str_obj ''m2''"
         and entry = None, OF h(3,4) refl h(5,6,7) e(4) [symmetric] h(9)]
  show ?thesis
    using e(1,2,5) by auto
qed

subsection \<open>C3: \<open>accept-waveform\<close> without audio\<close>

text \<open>
  Claim C3. \<open>accept-waveform\<close> on an open recognizer, with a payload word whose byte
  array is absent (a null data pointer) or whose length is zero or negative, returns
  \<open>TCL_ERROR\<close> with the message \<open>invalid audio data\<close> and makes no external call; the
  engine table is not even consulted.
\<close>

theorem accept_waveform_invalid_audio:
  assumes "cd \<noteq> NULL" "recognizers w cd = Some ctx" "closed ctx = 0"
      and "model_ctx ctx \<noteq> NULL" "models w (model_ctx ctx) = Some mctx"
      and "objv = [cmd, sub, payload]" "Tcl_GetString sub = ''accept-waveform''"
      and "byte_array payload = None \<or> byte_length payload \<le> 0"
  shows "\<exists>w'. RecognizerObjCmd E cd objv w = Some (TCL_ERROR, w')
           \<and> result (interp w') = StringObj (Tcl_GetStringResult w @ ''invalid audio data'')
           \<and> trace w' = trace w"
  using assms by (auto simp: RecognizerObjCmd_open)

theorem accept_waveform_invalid_audio_witness:
  "byte_length (bytes_obj []) \<le> 0
   \<and> (\<exists>w'. RecognizerObjCmd E0 3 [str_obj ''r1'', str_obj ''accept-waveform'', bytes_obj []] w0
             = Some (TCL_ERROR, w')
          \<and> result (interp w') = StringObj ''invalid audio data'' \<and> trace w' = [])"
proof -
  have h: "(3::ptr) \<noteq> NULL" "recognizers w0 3 = Some r1" "closed r1 = 0"
    "model_ctx r1 \<noteq> NULL" "models w0 (model_ctx r1) = Some m1"
    "Tcl_GetString (str_obj ''accept-waveform'') = ''accept-waveform''"
    "byte_array (bytes_obj []) = None \<or> byte_length (bytes_obj []) \<le> 0"
    by (simp_all add: w0_def r1_def Tcl_GetString_def str_obj_def bytes_obj_def)
  have e: "Tcl_GetStringResult w0 = []" "trace w0 = []" "byte_length (bytes_obj []) \<le> 0"
    by (simp_all add: w0_def Tcl_GetStringResult_def bytes_obj_def)
  from accept_waveform_invalid_audio [where E = E0 and cmd = "str_obj ''r1''",
         OF h(1-5) refl h(6,7)]
  show ?thesis
    using e by auto
qed

subsection \<open>C4: \<open>text\<close> and \<open>final-result\<close>\<close>

text \<open>
  Claim C4. \<open>text\<close> and \<open>final-result\<close> on an open recognizer return \<open>TCL_OK\<close> with a
  string object as result: the string that \<open>get_text\<close> (respectively \<open>get_final\<close>)
  returns for the context when it is not null, the empty string when it is null. The
  engine function is called once.
\<close>

theorem text_final_result_string:
  assumes "cd \<noteq> NULL" "recognizers w cd = Some ctx" "closed ctx = 0"
      and "model_ctx ctx \<noteq> NULL" "models w (model_ctx ctx) = Some mctx"
      and "2 \<le> length objv"
      and "engine_funcs mctx \<noteq> NULL" "E (engine_funcs mctx) = Some tbl"
      and "Tcl_GetString (objv ! 1) = ''text'' \<and> get_text tbl = Some f \<and> ev = Call_get_text cd
         \<or> Tcl_GetString (objv ! 1) = ''final-result'' \<and> get_final tbl = Some f
             \<and> ev = Call_get_final cd"
  shows "\<exists>w'. RecognizerObjCmd E cd objv w = Some (TCL_OK, w')
           \<and> result (interp w') = StringObj (case f cd of Some s \<Rightarrow> s | None \<Rightarrow> [])
           \<and> calls w' = calls w @ [ev]"
  using assms by (auto simp: RecognizerObjCmd_open deref_def Tcl_NewStringObj_def)

theorem text_final_result_string_witness:
  "(\<exists>w'. RecognizerObjCmd E0 3 [str_obj ''r1'', str_obj ''text''] w0 = Some (TCL_OK, w')
        \<and> result (interp w') = StringObj [] \<and> calls w' = [Call_get_text 3])
   \<and> (\<exists>w'. RecognizerObjCmd E0 3 [str_obj ''r1'', str_obj ''final-result''] w0
             = Some (TCL_OK, w')
        \<and> result (interp w') = StringObj ''hello world'' \<and> calls w' = [Call_get_final 3])"
proof -
  have h: "(3::ptr) \<noteq> NULL" "recognizers w0 3 = Some r1" "closed r1 = 0"
    "model_ctx r1 \<noteq> NULL" "models w0 (model_ctx r1) = Some m1"
    "engine_funcs m1 \<noteq> NULL" "E0 (engine_funcs m1) = Some vosk_api"
    by (simp_all add: w0_def r1_def m1_def E0_def)
  have n: "2 \<le> length [str_obj ''r1'', str_obj ''text'']"
    "2 \<le> length [str_obj ''r1'', str_obj ''final-result'']"
    by simp_all
  have t: "Tcl_GetString ([str_obj ''r1'', str_obj ''text''] ! 1) = ''text''
             \<and> get_text vosk_api = Some (\<lambda>_. None) \<and> Call_get_text 3 = Call_get_text 3
           \<or> Tcl_GetString ([str_obj ''r1'', str_obj ''text''] ! 1) = ''final-result''
             \<and> get_final vosk_api = Some (\<lambda>_. None) \<and> Call_get_text 3 = Call_get_final 3"
    by (simp add: Tcl_GetString_def str_obj_def vosk_api_def)
  have f: "Tcl_GetString ([str_obj ''r1'', str_obj ''final-result''] ! 1) = ''text''
             \<and> get_text vosk_api = Some (\<lambda>_. Some ''hello world'')
             \<and> Call_get_final 3 = Call_get_text 3
           \<or> Tcl_GetString ([str_obj ''r1'', str_obj ''final-result''] ! 1) = ''final-result''
             \<and> get_final vosk_api = Some (\<lambda>_. Some ''hello world'')
             \<and> Call_get_final 3 = Call_get_final 3"
    by (simp add: Tcl_GetString_def str_obj_def vosk_api_def)
  have e: "calls w0 = []"
    by (simp add: calls_def w0_def)
  from text_final_result_string [where E = E0 and f = "\<lambda>_. None", OF h(1-5) n(1) h(6,7) t]
       text_final_result_string [where E = E0 and f = "\<lambda>_. Some ''hello world''",
         OF h(1-5) n(2) h(6,7) f]
  show ?thesis
    using e by auto
qed

subsection \<open>C5: arity\<close>

text \<open>
  Claim C5 as stated says that every subcommand rejects a wrong number of arguments, in
  particular that \<open>text\<close>, \<open>final-result\<close>, \<open>reset\<close> and \<open>close\<close> reject extra
  arguments. The handlers test \<open>objc\<close> only in the two branches that read arguments:
  \<open>r1 text extra\<close> on an open recognizer returns \<open>TCL_OK\<close> and calls \<open>get_text\<close>.
\<close>

theorem extra_arguments_counterexample:
  "map_option fst
     (RecognizerObjCmd E0 3 [str_obj ''r1'', str_obj ''text'', str_obj ''extra''] w0)
     = Some TCL_OK
   \<and> map_option (calls \<circ> snd)
       (RecognizerObjCmd E0 3 [str_obj ''r1'', str_obj ''text'', str_obj ''extra''] w0)
     = Some [Call_get_text 3]"
  by (simp add: RecognizerObjCmd_def deref_def Tcl_GetString_def calls_def example_defs)

text \<open>
  Claim C5, amended. The subcommands that read arguments check their number:
  \<open>accept-waveform\<close> with a word count other than 3, and \<open>create_recognizer\<close> with a
  word count other than 4 or a third word other than \<open>-rate\<close>, return \<open>TCL_ERROR\<close> with
  the usage message of \<open>Tcl_WrongNumArgs\<close> and make no external call. The subcommands
  without arguments (\<open>text\<close>, \<open>final-result\<close>, \<open>reset\<close>, \<open>close\<close> of the recognizer,
  \<open>close\<close> of the model) ignore extra words: the handler does exactly what it does
  without them.
\<close>

theorem arity_checked_where_arguments_are_read:
  shows "(rcd \<noteq> NULL \<and> recognizers w rcd = Some ctx \<and> closed ctx = 0
            \<and> model_ctx ctx \<noteq> NULL \<and> models w (model_ctx ctx) = Some mctx
            \<and> 2 \<le> length objv \<and> Tcl_GetString (objv ! 1) = ''accept-waveform''
            \<and> length objv \<noteq> 3 \<longrightarrow>
            (\<exists>w'. RecognizerObjCmd E rcd objv w = Some (TCL_ERROR, w')
               \<and> result (interp w') = StringObj (wrong_num_args 2 objv ''audio_data'')
               \<and> trace w' = trace w))
       \<and> (mcd \<noteq> NULL \<and> 2 \<le> length objv \<and> Tcl_GetString (objv ! 1) = ''create_recognizer''
            \<and> (length objv \<noteq> 4 \<or> Tcl_GetString (objv ! 2) \<noteq> ''-rate'') \<longrightarrow>
            (\<exists>w'. ModelObjCmd E mcd objv w = Some (TCL_ERROR, w')
               \<and> result (interp w') = StringObj (wrong_num_args 2 objv ''-rate sample_rate'')
               \<and> trace w' = trace w))
       \<and> (Tcl_GetString sub \<in> {''text'', ''final-result'', ''reset'', ''close''} \<longrightarrow>
            RecognizerObjCmd E rcd (cmd # sub # extra) w = RecognizerObjCmd E rcd [cmd, sub] w)
       \<and> (Tcl_GetString sub = ''close'' \<longrightarrow>
            ModelObjCmd E mcd (cmd # sub # extra) w = ModelObjCmd E mcd [cmd, sub] w)"
proof (intro conjI impI)
  assume "rcd \<noteq> NULL \<and> recognizers w rcd = Some ctx \<and> closed ctx = 0
            \<and> model_ctx ctx \<noteq> NULL \<and> models w (model_ctx ctx) = Some mctx
            \<and> 2 \<le> length objv \<and> Tcl_GetString (objv ! 1) = ''accept-waveform''
            \<and> length objv \<noteq> 3"
  then show "\<exists>w'. RecognizerObjCmd E rcd objv w = Some (TCL_ERROR, w')
               \<and> result (interp w') = StringObj (wrong_num_args 2 objv ''audio_data'')
               \<and> trace w' = trace w"
    by (auto simp: RecognizerObjCmd_open)
next
  assume "mcd \<noteq> NULL \<and> 2 \<le> length objv \<and> Tcl_GetString (objv ! 1) = ''create_recognizer''
            \<and> (length objv \<noteq> 4 \<or> Tcl_GetString (objv ! 2) \<noteq> ''-rate'')"
  then show "\<exists>w'. ModelObjCmd E mcd objv w = Some (TCL_ERROR, w')
               \<and> result (interp w') = StringObj (wrong_num_args 2 objv ''-rate sample_rate'')
               \<and> trace w' = trace w"
    by (auto simp: ModelObjCmd_def Let_def)
next
  assume "Tcl_GetString sub \<in> {''text'', ''final-result'', ''reset'', ''close''}"
  then have "Tcl_GetString sub \<noteq> ''accept-waveform''"
    by auto
  then show "RecognizerObjCmd E rcd (cmd # sub # extra) w = RecognizerObjCmd E rcd [cmd, sub] w"
    by (simp add: RecognizerObjCmd_def Let_def cong: if_cong)
next
  assume "Tcl_GetString sub = ''close''"
  then show "ModelObjCmd E mcd (cmd # sub # extra) w = ModelObjCmd E mcd [cmd, sub] w"
    by (simp add: ModelObjCmd_def Let_def cong: if_cong)
qed

theorem arity_checked_where_arguments_are_read_witness:
  "(\<exists>w'. RecognizerObjCmd E0 3 [str_obj ''r1'', str_obj ''accept-waveform''] w0
          = Some (TCL_ERROR, w')
        \<and> result (interp w')
            = StringObj ''wrong # args: should be \"r1 accept-waveform audio_data\"''
        \<and> trace w' = [])
   \<and> (\<exists>w'. ModelObjCmd E0 1 [str_obj ''m1'', str_obj ''create_recognizer'', str_obj ''16000''] w0
          = Some (TCL_ERROR, w')
        \<and> result (interp w')
            = StringObj ''wrong # args: should be \"m1 create_recognizer -rate sample_rate\"''
        \<and> trace w' = [])
   \<and> RecognizerObjCmd E0 3 [str_obj ''r1'', str_obj ''reset'', str_obj ''now''] w0
       = RecognizerObjCmd E0 3 [str_obj ''r1'', str_obj ''reset''] w0
   \<and> ModelObjCmd E0 1 [str_obj ''m1'', str_obj ''close'', str_obj ''now''] w0
       = ModelObjCmd E0 1 [str_obj ''m1'', str_obj ''close''] w0"
proof -
  let ?r = "[str_obj ''r1'', str_obj ''accept-waveform'']"
  let ?m = "[str_obj ''m1'', str_obj ''create_recognizer'', str_obj ''16000'']"
  have a: "(3::ptr) \<noteq> NULL \<and> recognizers w0 3 = Some r1 \<and> closed r1 = 0
            \<and> model_ctx r1 \<noteq> NULL \<and> models w0 (model_ctx r1) = Some m1
            \<and> 2 \<le> length ?r \<and> Tcl_GetString (?r ! 1) = ''accept-waveform''
            \<and> length ?r \<noteq> 3"
    by (simp add: w0_def r1_def Tcl_GetString_def str_obj_def)
  have b: "(1::ptr) \<noteq> NULL \<and> 2 \<le> length ?m \<and> Tcl_GetString (?m ! 1) = ''create_recognizer''
            \<and> (length ?m \<noteq> 4 \<or> Tcl_GetString (?m ! 2) \<noteq> ''-rate'')"
    by (simp add: Tcl_GetString_def str_obj_def)
  have c: "Tcl_GetString (str_obj ''reset'') \<in> {''text'', ''final-result'', ''reset'', ''close''}"
    "Tcl_GetString (str_obj ''close'') = ''close''"
    by (simp_all add: Tcl_GetString_def str_obj_def)
  have e: "trace w0 = []"
    "wrong_num_args 2 ?r ''audio_data''
       = ''wrong # args: should be \"r1 accept-waveform audio_data\"''"
    "wrong_num_args 2 ?m ''-rate sample_rate''
       = ''wrong # args: should be \"m1 create_recognizer -rate sample_rate\"''"
    by (simp_all add: w0_def wrong_num_args_def Tcl_GetString_def str_obj_def)
  note t = arity_checked_where_arguments_are_read [where E = E0 and w = w0 and rcd = 3
             and mcd = 1 and ctx = r1 and mctx = m1]
  from t [where objv = ?r, THEN conjunct1, rule_format, OF a]
       t [where objv = ?m, THEN conjunct2, THEN conjunct1, rule_format, OF b]
       t [where sub = "str_obj ''reset''" and cmd = "str_obj ''r1''" and extra = "[str_obj ''now'']",
          THEN conjunct2, THEN conjunct2, THEN conjunct1, rule_format, OF c(1)]
       t [where sub = "str_obj ''close''" and cmd = "str_obj ''m1''" and extra = "[str_obj ''now'']",
          THEN conjunct2, THEN conjunct2, THEN conjunct2, rule_format, OF c(2)]
  show ?thesis
    unfolding e by blast
qed

subsection \<open>C6: unknown subcommands\<close>

text \<open>
  Claim C6. For a command of at least two words whose second word is outside the
  vocabulary of the handler, the model handler (on a non-null context) and the
  recognizer handler (on an open context with a live parent) return \<open>TCL_ERROR\<close>,
  append \<open>unknown subcommand "\<close>, the word itself and \<open>"\<close> to the result, and make no
  external call.
\<close>

theorem unknown_subcommand:
  assumes "2 \<le> length objv" "Tcl_GetString (objv ! 1) = sub"
  shows "(mcd \<noteq> NULL \<and> sub \<notin> {''create_recognizer'', ''close''} \<longrightarrow>
            (\<exists>w'. ModelObjCmd E mcd objv w = Some (TCL_ERROR, w')
               \<and> result (interp w')
                   = StringObj (Tcl_GetStringResult w @ ''unknown subcommand \"'' @ sub @ ''\"'')
               \<and> trace w' = trace w))
       \<and> (rcd \<noteq> NULL \<and> recognizers w rcd = Some ctx \<and> closed ctx = 0
            \<and> model_ctx ctx \<noteq> NULL \<and> models w (model_ctx ctx) = Some mctx
            \<and> sub \<notin> {''accept-waveform'', ''text'', ''final-result'', ''reset'', ''close''} \<longrightarrow>
            (\<exists>w'. RecognizerObjCmd E rcd objv w = Some (TCL_ERROR, w')
               \<and> result (interp w')
                   = StringObj (Tcl_GetStringResult w @ ''unknown subcommand \"'' @ sub @ ''\"'')
               \<and> trace w' = trace w))"
proof (intro conjI impI)
  assume "mcd \<noteq> NULL \<and> sub \<notin> {''create_recognizer'', ''close''}"
  with assms show "\<exists>w'. ModelObjCmd E mcd objv w = Some (TCL_ERROR, w')
               \<and> result (interp w')
                   = StringObj (Tcl_GetStringResult w @ ''unknown subcommand \"'' @ sub @ ''\"'')
               \<and> trace w' = trace w"
    by (auto simp: ModelObjCmd_def Let_def)
next
  assume "rcd \<noteq> NULL \<and> recognizers w rcd = Some ctx \<and> closed ctx = 0
            \<and> model_ctx ctx \<noteq> NULL \<and> models w (model_ctx ctx) = Some mctx
            \<and> sub \<notin> {''accept-waveform'', ''text'', ''final-result'', ''reset'', ''close''}"
  with assms show "\<exists>w'. RecognizerObjCmd E rcd objv w = Some (TCL_ERROR, w')
               \<and> result (interp w')
                   = StringObj (Tcl_GetStringResult w @ ''unknown subcommand \"'' @ sub @ ''\"'')
               \<and> trace w' = trace w"
    by (auto simp: RecognizerObjCmd_open)
qed

theorem unknown_subcommand_witness:
  "(\<exists>w'. ModelObjCmd E0 1 [str_obj ''m1'', str_obj ''bogus-subcommand''] w0
          = Some (TCL_ERROR, w')
        \<and> result (interp w') = StringObj ''unknown subcommand \"bogus-subcommand\"''
        \<and> trace w' = [])
   \<and> (\<exists>w'. RecognizerObjCmd E0 3 [str_obj ''r1'', str_obj ''bogus-subcommand''] w0
          = Some (TCL_ERROR, w')
        \<and> result (interp w') = StringObj ''unknown subcommand \"bogus-subcommand\"''
        \<and> trace w' = [])"
proof -
  have h: "2 \<le> length [str_obj ''m1'', str_obj ''bogus-subcommand'']"
    "Tcl_GetString ([str_obj ''m1'', str_obj ''bogus-subcommand''] ! 1) = ''bogus-subcommand''"
    "2 \<le> length [str_obj ''r1'', str_obj ''bogus-subcommand'']"
    "Tcl_GetString ([str_obj ''r1'', str_obj ''bogus-subcommand''] ! 1) = ''bogus-subcommand''"
    by (simp_all add: Tcl_GetString_def str_obj_def)
  have g: "(1::ptr) \<noteq> NULL \<and> ''bogus-subcommand'' \<notin> {''create_recognizer'', ''close''}"
    "(3::ptr) \<noteq> NULL \<and> recognizers w0 3 = Some r1 \<and> closed r1 = 0
       \<and> model_ctx r1 \<noteq> NULL \<and> models w0 (model_ctx r1) = Some m1
       \<and> ''bogus-subcommand''
           \<notin> {''accept-waveform'', ''text'', ''final-result'', ''reset'', ''close''}"
    by (simp_all add: w0_def r1_def)
  have e: "Tcl_GetStringResult w0 = []" "trace w0 = []"
    by (simp_all add: w0_def Tcl_GetStringResult_def)
  from unknown_subcommand [where E = E0 and w = w0 and mcd = 1, OF h(1,2), THEN conjunct1,
         rule_format, OF g(1)]
       unknown_subcommand [where E = E0 and w = w0 and rcd = 3 and ctx = r1 and mctx = m1,
         OF h(3,4), THEN conjunct2, rule_format, OF g(2)]
  show ?thesis
    using e by auto
qed

subsection \<open>C7: the destructors release what is there\<close>

text \<open>
  Claim C7. Both destructors do nothing on a null pointer. On a context, whatever subset
  of its fields is null, they make exactly one release per field that is not null, in
  the order of the source, and then free the context: the engine handle is released
  (through \<open>model_free\<close>, \<open>recognizer_free\<close>) only when it is not null and the engine
  table is reachable (for a recognizer: through a non-null parent), so a context whose
  handle is null is never passed to the engine. The table entries themselves are not
  tested by the code: where the handle is released, the entry is assumed present.
\<close>

theorem destructors_release_nonnull_only:
  assumes "mcd \<noteq> NULL" "models w mcd = Some m"
      and "model m \<noteq> NULL \<and> engine_funcs m \<noteq> NULL
             \<longrightarrow> (\<exists>api. E (engine_funcs m) = Some api \<and> model_free api \<noteq> None)"
      and "rcd \<noteq> NULL" "recognizers w rcd = Some r"
      and "recognizer r \<noteq> NULL \<and> model_ctx r \<noteq> NULL \<longrightarrow> models w (model_ctx r) = Some pm"
      and "recognizer r \<noteq> NULL \<and> model_ctx r \<noteq> NULL \<and> engine_funcs pm \<noteq> NULL
             \<longrightarrow> (\<exists>api. E (engine_funcs pm) = Some api \<and> recognizer_free api \<noteq> None)"
  shows "model_delete E NULL w = Some w \<and> recognizer_delete E NULL w = Some w
       \<and> (\<exists>w'. model_delete E mcd w = Some w' \<and> models w' mcd = None
             \<and> calls w' = calls w
                 @ (if model m \<noteq> NULL \<and> engine_funcs m \<noteq> NULL
                    then [Call_model_free (model m)] else [])
                 @ (case model_path m of Some s \<Rightarrow> [Ckfree_string s] | None \<Rightarrow> [])
                 @ (case engine_type m of Some s \<Rightarrow> [Ckfree_string s] | None \<Rightarrow> [])
                 @ (if cmdname m \<noteq> NULL then [DecrRefCount (cmdname m)] else [])
                 @ [Ckfree mcd])
       \<and> (\<exists>w'. recognizer_delete E rcd w = Some w' \<and> recognizers w' rcd = None
             \<and> calls w' = calls w
                 @ (if recognizer r \<noteq> NULL \<and> model_ctx r \<noteq> NULL \<and> engine_funcs pm \<noteq> NULL
                    then [Call_recognizer_free (recognizer r)] else [])
                 @ (if r_cmdname r \<noteq> NULL then [DecrRefCount (r_cmdname r)] else [])
                 @ [Ckfree rcd])"
proof (intro conjI)
  show "model_delete E NULL w = Some w"
    by (simp add: model_delete_def)
  show "recognizer_delete E NULL w = Some w"
    by (simp add: recognizer_delete_def)
  show "\<exists>w'. model_delete E mcd w = Some w' \<and> models w' mcd = None
             \<and> calls w' = calls w
                 @ (if model m \<noteq> NULL \<and> engine_funcs m \<noteq> NULL
                    then [Call_model_free (model m)] else [])
                 @ (case model_path m of Some s \<Rightarrow> [Ckfree_string s] | None \<Rightarrow> [])
                 @ (case engine_type m of Some s \<Rightarrow> [Ckfree_string s] | None \<Rightarrow> [])
                 @ (if cmdname m \<noteq> NULL then [DecrRefCount (cmdname m)] else [])
                 @ [Ckfree mcd]"
    using assms(1-3)
    by (auto simp: model_delete_def deref_def Let_def split: option.splits)
  show "\<exists>w'. recognizer_delete E rcd w = Some w' \<and> recognizers w' rcd = None
             \<and> calls w' = calls w
                 @ (if recognizer r \<noteq> NULL \<and> model_ctx r \<noteq> NULL \<and> engine_funcs pm \<noteq> NULL
                    then [Call_recognizer_free (recognizer r)] else [])
                 @ (if r_cmdname r \<noteq> NULL then [DecrRefCount (r_cmdname r)] else [])
                 @ [Ckfree rcd]"
    using assms(4-7)
    by (auto simp: recognizer_delete_def deref_def Let_def split: option.splits)
qed

theorem destructors_release_nonnull_only_witness:
  "(\<exists>w'. model_delete E0 1 w0 = Some w'
        \<and> calls w' = [Call_model_free 100, Ckfree_string ''/models/vosk-en'',
                       Ckfree_string ''vosk'', DecrRefCount 200, Ckfree 1])
   \<and> (\<exists>w'. recognizer_delete E0 3 w0 = Some w'
        \<and> calls w' = [Call_recognizer_free 101, DecrRefCount 201, Ckfree 3])
   \<and> (\<exists>w'. model_delete E0 5 w0 = Some w' \<and> calls w' = [Ckfree_string ''vosk'', Ckfree 5])
   \<and> (\<exists>w'. recognizer_delete E0 6 w0 = Some w' \<and> calls w' = [Ckfree 6])"
proof -
  have full: "(1::ptr) \<noteq> NULL" "models w0 1 = Some m1"
    "model m1 \<noteq> NULL \<and> engine_funcs m1 \<noteq> NULL
       \<longrightarrow> (\<exists>api. E0 (engine_funcs m1) = Some api \<and> model_free api \<noteq> None)"
    "(3::ptr) \<noteq> NULL" "recognizers w0 3 = Some r1"
    "recognizer r1 \<noteq> NULL \<and> model_ctx r1 \<noteq> NULL \<longrightarrow> models w0 (model_ctx r1) = Some m1"
    "recognizer r1 \<noteq> NULL \<and> model_ctx r1 \<noteq> NULL \<and> engine_funcs m1 \<noteq> NULL
       \<longrightarrow> (\<exists>api. E0 (engine_funcs m1) = Some api \<and> recognizer_free api \<noteq> None)"
    by (simp_all add: w0_def m1_def r1_def E0_def vosk_api_def)
  have part: "(5::ptr) \<noteq> NULL" "models w0 5 = Some m5"
    "model m5 \<noteq> NULL \<and> engine_funcs m5 \<noteq> NULL
       \<longrightarrow> (\<exists>api. E0 (engine_funcs m5) = Some api \<and> model_free api \<noteq> None)"
    "(6::ptr) \<noteq> NULL" "recognizers w0 6 = Some r6"
    "recognizer r6 \<noteq> NULL \<and> model_ctx r6 \<noteq> NULL \<longrightarrow> models w0 (model_ctx r6) = Some m5"
    "recognizer r6 \<noteq> NULL \<and> model_ctx r6 \<noteq> NULL \<and> engine_funcs m5 \<noteq> NULL
       \<longrightarrow> (\<exists>api. E0 (engine_funcs m5) = Some api \<and> recognizer_free api \<noteq> None)"
    by (simp_all add: w0_def m5_def r6_def)
  have e: "calls w0 = []"
    by (simp add: calls_def w0_def)
  from destructors_release_nonnull_only [where E = E0, OF full]
       destructors_release_nonnull_only [where E = E0, OF part]
  show ?thesis
    by (auto simp: e m1_def r1_def m5_def r6_def)
qed

subsection \<open>C8: the closed flag only goes up\<close>

text \<open>
  Claim C8. Whichever of the two handlers and two destructors runs, a recognizer context
  whose closed flag is set and that is still allocated afterwards has its flag still
  set: nothing resets it. The recognizer destructor sets the flag before anything else:
  each of its external calls, of which the last frees the context, is made with the flag
  of the context equal to 1 in memory.
\<close>

theorem closed_flag_monotonic:
  assumes "RecognizerObjCmd E cd objv w = Some (rc, w') \<or> ModelObjCmd E cd objv w = Some (rc, w')
         \<or> model_delete E cd w = Some w' \<or> recognizer_delete E cd w = Some w'"
  shows "(\<forall>p r r'. recognizers w p = Some r \<and> recognizers w' p = Some r' \<and> closed r \<noteq> 0
            \<longrightarrow> closed r' \<noteq> 0)
       \<and> (cd \<noteq> NULL \<and> recognizer_delete E cd w = Some w' \<longrightarrow>
            (\<exists>evs. trace w' = trace w @ evs \<and> evs \<noteq> []
               \<and> (\<forall>(e, m) \<in> set evs. \<exists>r. snd m cd = Some r \<and> closed r = 1)))"
proof (intro conjI allI impI)
  fix p r r'
  assume a: "recognizers w p = Some r \<and> recognizers w' p = Some r' \<and> closed r \<noteq> 0"
  have "recognizers w' p = None \<or> recognizers w' p = recognizers w p"
    using assms
  proof (elim disjE)
    assume "RecognizerObjCmd E cd objv w = Some (rc, w')"
    then show ?thesis by (rule RecognizerObjCmd_recognizers)
  next
    assume "ModelObjCmd E cd objv w = Some (rc, w')"
    then show ?thesis by (rule ModelObjCmd_recognizers)
  next
    assume "model_delete E cd w = Some w'"
    then show ?thesis by (simp add: model_delete_recognizers)
  next
    assume "recognizer_delete E cd w = Some w'"
    then show ?thesis by (simp add: recognizer_delete_recognizers)
  qed
  with a show "closed r' \<noteq> 0"
    by auto
next
  assume "cd \<noteq> NULL \<and> recognizer_delete E cd w = Some w'"
  then show "\<exists>evs. trace w' = trace w @ evs \<and> evs \<noteq> []
               \<and> (\<forall>(e, m) \<in> set evs. \<exists>r. snd m cd = Some r \<and> closed r = 1)"
    using recognizer_delete_closed_first by blast
qed

theorem closed_flag_monotonic_witness:
  "(\<exists>w'. RecognizerObjCmd E0 3 [str_obj ''r1'', str_obj ''close''] w0 = Some (TCL_OK, w')
        \<and> recognizers w' 3 = None
        \<and> (\<forall>p r r'. recognizers w0 p = Some r \<and> recognizers w' p = Some r' \<and> closed r \<noteq> 0
              \<longrightarrow> closed r' \<noteq> 0))
   \<and> (\<exists>w'. recognizer_delete E0 3 w0 = Some w'
        \<and> map fst (trace w') = [Call_recognizer_free 101, DecrRefCount 201, Ckfree 3]
        \<and> (\<forall>(e, m) \<in> set (trace w'). \<exists>r. snd m 3 = Some r \<and> closed r = 1))"
proof -
  have "\<exists>w1. recognizer_delete E0 3 w0 = Some w1
          \<and> map fst (trace w1) = [Call_recognizer_free 101, DecrRefCount 201, Ckfree 3]"
    by (simp add: recognizer_delete_def deref_def example_defs)
  then obtain w1 where d: "recognizer_delete E0 3 w0 = Some w1"
      and c1: "map fst (trace w1) = [Call_recognizer_free 101, DecrRefCount 201, Ckfree 3]"
    by (elim exE conjE)
  have "\<exists>w2. RecognizerObjCmd E0 3 [str_obj ''r1'', str_obj ''close''] w0 = Some (TCL_OK, w2)
          \<and> recognizers w2 3 = None"
    by (simp add: RecognizerObjCmd_def Tcl_DeleteCommand_def recognizer_delete_def deref_def
                  Tcl_GetString_def example_defs)
  then obtain w2
    where c: "RecognizerObjCmd E0 3 [str_obj ''r1'', str_obj ''close''] w0 = Some (TCL_OK, w2)"
      and f2: "recognizers w2 3 = None"
    by (elim exE conjE)
  have e: "trace w0 = []" "(3::ptr) \<noteq> NULL"
    by (simp_all add: w0_def)
  have m: "\<forall>p r r'. recognizers w0 p = Some r \<and> recognizers w2 p = Some r' \<and> closed r \<noteq> 0
              \<longrightarrow> closed r' \<noteq> 0"
    by (rule closed_flag_monotonic [where E = E0 and cd = 3 and w = w0 and w' = w2
          and rc = TCL_OK and objv = "[str_obj ''r1'', str_obj ''close'']",
          OF disjI1, OF c, THEN conjunct1])
  have "\<exists>evs. trace w1 = trace w0 @ evs \<and> evs \<noteq> []
          \<and> (\<forall>(e, m) \<in> set evs. \<exists>r. snd m 3 = Some r \<and> closed r = 1)"
    using closed_flag_monotonic [where E = E0 and cd = 3 and w = w0 and w' = w1
          and rc = TCL_OK and objv = "[]",
          OF disjI2, OF disjI2, OF disjI2, OF d, THEN conjunct2] e(2) d
    by simp
  then have s: "\<forall>(e, m) \<in> set (trace w1). \<exists>r. snd m 3 = Some r \<and> closed r = 1"
    by (simp add: e(1))
  have A: "\<exists>w'. RecognizerObjCmd E0 3 [str_obj ''r1'', str_obj ''close''] w0 = Some (TCL_OK, w')
        \<and> recognizers w' 3 = None
        \<and> (\<forall>p r r'. recognizers w0 p = Some r \<and> recognizers w' p = Some r' \<and> closed r \<noteq> 0
              \<longrightarrow> closed r' \<noteq> 0)"
    by (rule exI [of _ w2]) (intro conjI c f2 m)
  have B: "\<exists>w'. recognizer_delete E0 3 w0 = Some w'
        \<and> map fst (trace w') = [Call_recognizer_free 101, DecrRefCount 201, Ckfree 3]
        \<and> (\<forall>(e, m) \<in> set (trace w'). \<exists>r. snd m 3 = Some r \<and> closed r = 1)"
    by (rule exI [of _ w1]) (intro conjI d c1 s)
  show ?thesis
    using A B by (rule conjI)
qed

subsection \<open>C9: \<open>accept-waveform\<close> forwards to the engine\<close>

text \<open>
  Claim C9. \<open>accept-waveform\<close> on an open recognizer with one payload word that has a
  byte array of positive length calls \<open>accept_waveform\<close> of the engine exactly once, with
  the recognizer handle, the bytes and the length, and returns \<open>TCL_OK\<close> with the
  boolean object of the integer the engine returned (true when it is not 0).
\<close>

theorem accept_waveform_forwards:
  assumes "cd \<noteq> NULL" "recognizers w cd = Some ctx" "closed ctx = 0"
      and "model_ctx ctx \<noteq> NULL" "models w (model_ctx ctx) = Some mctx"
      and "objv = [cmd, sub, payload]" "Tcl_GetString sub = ''accept-waveform''"
      and "byte_array payload = Some data" "0 < byte_length payload"
      and "engine_funcs mctx \<noteq> NULL" "E (engine_funcs mctx) = Some tbl"
      and "accept_waveform tbl = Some f"
  shows "\<exists>w'. RecognizerObjCmd E cd objv w = Some (TCL_OK, w')
           \<and> result (interp w')
               = BooleanObj (f (recognizer ctx) data (byte_length payload) \<noteq> 0)
           \<and> calls w' = calls w @ [Call_accept_waveform (recognizer ctx) data (byte_length payload)]"
  using assms by (auto simp: RecognizerObjCmd_open deref_def Tcl_NewBooleanObj_def)

theorem accept_waveform_forwards_witness:
  "\<exists>w'. RecognizerObjCmd E0 3
            [str_obj ''r1'', str_obj ''accept-waveform'', bytes_obj [1, 2, 3, 4, 5]] w0
          = Some (TCL_OK, w')
        \<and> result (interp w') = BooleanObj True
        \<and> calls w' = [Call_accept_waveform 101 [1, 2, 3, 4, 5] 5]"
proof -
  have h: "(3::ptr) \<noteq> NULL" "recognizers w0 3 = Some r1" "closed r1 = 0"
    "model_ctx r1 \<noteq> NULL" "models w0 (model_ctx r1) = Some m1"
    "Tcl_GetString (str_obj ''accept-waveform'') = ''accept-waveform''"
    "byte_array (bytes_obj [1, 2, 3, 4, 5]) = Some [1, 2, 3, 4, 5]"
    "0 < byte_length (bytes_obj [1, 2, 3, 4, 5])"
    "engine_funcs m1 \<noteq> NULL" "E0 (engine_funcs m1) = Some vosk_api"
    "accept_waveform vosk_api = Some (\<lambda>h bs n. if n > 4 then 1 else 0)"
    by (simp_all add: w0_def r1_def m1_def E0_def Tcl_GetString_def str_obj_def bytes_obj_def
                      vosk_api_def)
  have e: "calls w0 = []" "byte_length (bytes_obj [1, 2, 3, 4, 5]) = 5" "recognizer r1 = 101"
    by (simp_all add: calls_def w0_def bytes_obj_def r1_def)
  from accept_waveform_forwards [where cmd = "str_obj ''r1''" and E = E0 and w = w0
         and f = "\<lambda>h bs n. if n > 4 then 1 else 0", OF h(1-5) refl h(6-11)]
  show ?thesis
    using e by auto
qed

subsection \<open>C10: the parent model context is read before dispatch\<close>

text \<open>
  Claim C10. On an open context and a command of at least two words, the recognizer
  handler reads \<open>ctx->model_ctx->engine_funcs\<close> before it looks at the subcommand: with
  a null (or dangling) parent pointer the read is undefined behaviour, whatever the
  subcommand, \<open>close\<close> and unknown words included.
\<close>

theorem recognizer_needs_parent_model:
  assumes "cd \<noteq> NULL" "recognizers w cd = Some ctx" "closed ctx = 0"
      and "2 \<le> length objv"
      and "model_ctx ctx = NULL \<or> models w (model_ctx ctx) = None"
  shows "RecognizerObjCmd E cd objv w = None"
  using assms by (auto simp: RecognizerObjCmd_def deref_def Let_def)

theorem recognizer_needs_parent_model_witness:
  "recognizers w0 6 = Some r6 \<and> closed r6 = 0 \<and> model_ctx r6 = NULL
   \<and> RecognizerObjCmd E0 6 [str_obj ''r6'', str_obj ''close''] w0 = None
   \<and> RecognizerObjCmd E0 6 [str_obj ''r6'', str_obj ''bogus''] w0 = None"
proof -
  have h: "(6::ptr) \<noteq> NULL" "recognizers w0 6 = Some r6" "closed r6 = 0"
    "model_ctx r6 = NULL \<or> models w0 (model_ctx r6) = None"
    by (simp_all add: w0_def r6_def)
  have n: "2 \<le> length [str_obj ''r6'', str_obj ''close'']"
    "2 \<le> length [str_obj ''r6'', str_obj ''bogus'']"
    by simp_all
  have e: "model_ctx r6 = NULL"
    by (simp add: r6_def)
  from recognizer_needs_parent_model [where E = E0, OF h(1-3) n(1) h(4)]
       recognizer_needs_parent_model [where E = E0, OF h(1-3) n(2) h(4)]
  show ?thesis
    using h(2,3) e by simp
qed

end
